theory Spec2Isabelle
  imports Main "HOL-Library.AList" "HOL-Library.Char_ord" "HOL-Library.List_Lexorder"
begin

section \<open>Exceptions and external commands\<close>

text \<open>
  The orchestrator is \<^verbatim>\<open>src/code/main_parallel.py\<close>. Every Python exception that the
  modelled code can raise is a value of \<open>exc\<close>; a function that can raise returns
  \<open>exc + 'a\<close>, with \<open>Inl\<close> for the raised exception.
\<close>

datatype exc =
    CalledProcessError
  | OSError
  | NameError
  | IndexError
  | ValueError
  | FileNotFoundError
  | FileExistsError
  | IsADirectoryError
  | NotADirectoryError
  | MetadataMissing
  | CollaboratorError

text \<open>
  \<^verbatim>\<open>subprocess.run(cmd, shell=shell, check=True, cwd=cwd)\<close> has three outcomes: it
  returns (exit status zero), it raises \<^verbatim>\<open>CalledProcessError\<close> (non-zero exit status), or
  it raises something else before the command ran (for instance \<^verbatim>\<open>OSError\<close> for a missing
  working directory).
\<close>

datatype cmd_outcome = ExitZero | ExitNonzero | LaunchError exc

text \<open>What one call of \<^verbatim>\<open>run_with_retry\<close> does to the outside, in order.\<close>

datatype retry_event = Invoked string | RetryWarning nat nat | Slept nat

text \<open>
  \<^verbatim>\<open>run_with_retry\<close>, lines 34 to 44. The external command is the function \<open>run\<close>: \<open>run k\<close>
  is the outcome of the invocation made after \<open>k\<close> earlier ones. \<open>attempt\<close> is the loop
  variable of \<^verbatim>\<open>for attempt in range(1, retries + 1)\<close>. The result \<open>Inr (Some True)\<close> is
  \<^verbatim>\<open>return True\<close>; \<open>Inr None\<close> is the implicit \<^verbatim>\<open>None\<close> of a loop that ends without
  returning.
\<close>

function retry_loop ::
  "(nat \<Rightarrow> cmd_outcome) \<Rightarrow> string \<Rightarrow> nat \<Rightarrow> nat \<Rightarrow> nat \<Rightarrow> retry_event list
     \<Rightarrow> (exc + bool option) \<times> retry_event list" where
  "retry_loop run cmd retries delay attempt evs =
     (if retries < attempt then (Inr None, evs)
      else
        (case run (attempt - 1) of
           ExitZero \<Rightarrow> (Inr (Some True), evs @ [Invoked cmd])
         | LaunchError e \<Rightarrow> (Inl e, evs @ [Invoked cmd])
         | ExitNonzero \<Rightarrow>
             (if attempt < retries
              then retry_loop run cmd retries delay (Suc attempt)
                     (evs @ [Invoked cmd, RetryWarning attempt retries, Slept delay])
              else (Inl CalledProcessError, evs @ [Invoked cmd]))))"
  by pat_completeness auto
termination
  by (relation "measure (\<lambda>(run, cmd, retries, delay, attempt, evs). Suc retries - attempt)") auto

declare retry_loop.simps [simp del]

definition run_with_retry ::
  "(nat \<Rightarrow> cmd_outcome) \<Rightarrow> string \<Rightarrow> nat \<Rightarrow> nat \<Rightarrow> (exc + bool option) \<times> retry_event list" where
  "run_with_retry run cmd retries delay = retry_loop run cmd retries delay 1 []"

definition invocations :: "retry_event list \<Rightarrow> nat" where
  "invocations evs = length (filter (\<lambda>e. case e of Invoked _ \<Rightarrow> True | _ \<Rightarrow> False) evs)"

text \<open>
  The events of \<open>k\<close> failed attempts that are each followed by a retry, numbered from
  \<open>a\<close>: invocation, warning, sleep.
\<close>

fun failed_rounds :: "string \<Rightarrow> nat \<Rightarrow> nat \<Rightarrow> nat \<Rightarrow> nat \<Rightarrow> retry_event list" where
  "failed_rounds cmd retries delay a 0 = []"
| "failed_rounds cmd retries delay a (Suc k) =
     [Invoked cmd, RetryWarning a retries, Slept delay] @ failed_rounds cmd retries delay (Suc a) k"


section \<open>Paths and the file system\<close>

text \<open>
  A path, as the program holds it, is the list of the components of an absolute POSIX
  path, from the root: \<^verbatim>\<open>/data/runs/run_a_b\<close> is \<open>[''data'', ''runs'', ''run_a_b'']\<close> and the
  root is \<open>[]\<close>. The file system is a finite table from the places of its entries to nodes.
  The place of an entry is the path that leads to it through real directories only; a
  path of the program is resolved to a place by walking the table, one component after
  the other, as the kernel does (\<open>resolve\<close> below). Permissions and device errors are
  outside the model. A file is the list of its lines.
\<close>

type_synonym path = "string list"

datatype linktext = Relative "string list" | Absolute "string list"

datatype node = File "string list" | Dir | Link linktext

type_synonym filesystem = "(path \<times> node) list"

text \<open>The entry at a place; the root is a directory.\<close>

definition lookup :: "filesystem \<Rightarrow> path \<Rightarrow> node option" where
  "lookup fs p = (if p = [] then Some Dir else map_of fs p)"

text \<open>\<^verbatim>\<open>os.path.dirname\<close>, \<^verbatim>\<open>os.path.basename\<close> and \<^verbatim>\<open>os.path.join\<close> with one file name.\<close>

definition dirname :: "path \<Rightarrow> path" where
  "dirname p = butlast p"

definition basename :: "path \<Rightarrow> string" where
  "basename p = (if p = [] then [] else last p)"

definition join :: "path \<Rightarrow> string \<Rightarrow> path" where
  "join d n = (if n = [] then d else d @ [n])"

text \<open>String concatenation \<^verbatim>\<open>path + ext\<close> on the text of a path.\<close>

definition add_ext :: "path \<Rightarrow> string \<Rightarrow> path" where
  "add_ext p e = (if e = [] then p else if p = [] then [e] else butlast p @ [last p @ e])"

text \<open>
  \<^verbatim>\<open>os.path.normpath\<close> on the components of an absolute path, continued from the
  components \<open>d\<close> already read: it works on the text alone. An empty component and \<^verbatim>\<open>.\<close>
  are dropped, \<^verbatim>\<open>..\<close> drops the component before it, and at the root it is dropped
  itself. \<^verbatim>\<open>os.path.abspath\<close> of an absolute path is this normalisation.
\<close>

fun walk :: "path \<Rightarrow> string list \<Rightarrow> path" where
  "walk d [] = d"
| "walk d (c # cs) =
     (if c = ''..'' then walk (butlast d) cs
      else if c = ''.'' \<or> c = [] then walk d cs
      else walk (d @ [c]) cs)"

definition abspath :: "path \<Rightarrow> path" where
  "abspath p = walk [] p"

text \<open>
  Path resolution as the kernel does it. \<open>resolve n fs cur cs\<close> reads the components \<open>cs\<close>
  from the directory at the place \<open>cur\<close> and gives the place that is reached, following
  every symbolic link on the way, with at most \<open>n\<close> links in all. \<^verbatim>\<open>..\<close> leads to the
  directory that holds \<open>cur\<close> (the root holds itself). The text of a relative link is read
  from the directory that holds the link, the text of an absolute one from the root, and
  the components that were still to read follow it. \<open>None\<close> is a missing entry, a file
  where a directory is needed, or too many links.
\<close>

fun resolve :: "nat \<Rightarrow> filesystem \<Rightarrow> path \<Rightarrow> string list \<Rightarrow> path option" where
  "resolve n fs cur [] = Some cur"
| "resolve n fs cur (c # cs) =
     (if c = ''..'' then resolve n fs (butlast cur) cs
      else if c = ''.'' \<or> c = [] then resolve n fs cur cs
      else
        (case lookup fs (cur @ [c]) of
           None \<Rightarrow> None
         | Some Dir \<Rightarrow> resolve n fs (cur @ [c]) cs
         | Some (File ls) \<Rightarrow> (if cs = [] then Some (cur @ [c]) else None)
         | Some (Link t) \<Rightarrow>
             (case n of
                0 \<Rightarrow> None
              | Suc m \<Rightarrow>
                  (case t of
                     Relative r \<Rightarrow> resolve m fs cur (r @ cs)
                   | Absolute a \<Rightarrow> resolve m fs [] (a @ cs)))))"

text \<open>
  \<^verbatim>\<open>stat\<close>: the node a path leads to with every link followed, within the 40 links the
  kernel allows. \<^verbatim>\<open>os.path.exists\<close> and \<^verbatim>\<open>os.path.isdir\<close> are tests of it.
\<close>

definition stat :: "filesystem \<Rightarrow> path \<Rightarrow> node option" where
  "stat fs p = (case resolve 40 fs [] p of None \<Rightarrow> None | Some q \<Rightarrow> lookup fs q)"

definition exists :: "filesystem \<Rightarrow> path \<Rightarrow> bool" where
  "exists fs p = (stat fs p \<noteq> None)"

definition isdir :: "filesystem \<Rightarrow> path \<Rightarrow> bool" where
  "isdir fs p = (stat fs p = Some Dir)"

text \<open>
  The place of the entry that a path names: the directory of the path is resolved and
  must be a directory, the last component is taken as it is, a link included (a last
  component \<^verbatim>\<open>..\<close> or \<^verbatim>\<open>.\<close> names a directory and is resolved). This is where
  \<^verbatim>\<open>lstat\<close>, \<^verbatim>\<open>unlink\<close>, \<^verbatim>\<open>symlink\<close> and \<^verbatim>\<open>mkdir\<close> work.
\<close>

definition locate :: "filesystem \<Rightarrow> path \<Rightarrow> path option" where
  "locate fs p =
     (if p = [] then Some []
      else if last p = ''..'' \<or> last p = ''.'' \<or> last p = [] then resolve 40 fs [] p
      else
        (case resolve 40 fs [] (butlast p) of
           None \<Rightarrow> None
         | Some d \<Rightarrow> (if lookup fs d = Some Dir then Some (d @ [last p]) else None)))"

definition lstat :: "filesystem \<Rightarrow> path \<Rightarrow> node option" where
  "lstat fs p = (case locate fs p of None \<Rightarrow> None | Some q \<Rightarrow> lookup fs q)"

definition lexists :: "filesystem \<Rightarrow> path \<Rightarrow> bool" where
  "lexists fs p = (lstat fs p \<noteq> None)"

definition islink :: "filesystem \<Rightarrow> path \<Rightarrow> bool" where
  "islink fs p = (case lstat fs p of Some (Link t) \<Rightarrow> True | _ \<Rightarrow> False)"

text \<open>\<^verbatim>\<open>os.remove\<close>: unlinks a file or a link, refuses a directory.\<close>

definition os_remove :: "filesystem \<Rightarrow> path \<Rightarrow> exc + filesystem" where
  "os_remove fs p =
     (case locate fs p of
        None \<Rightarrow> Inl FileNotFoundError
      | Some q \<Rightarrow>
          (case lookup fs q of
             None \<Rightarrow> Inl FileNotFoundError
           | Some Dir \<Rightarrow> Inl IsADirectoryError
           | Some _ \<Rightarrow> Inr (AList.delete q fs)))"

text \<open>
  Creating an entry (\<^verbatim>\<open>os.symlink\<close>, \<^verbatim>\<open>os.mkdir\<close>): the directory of the path must lead to
  a directory and the name must be free there.
\<close>

definition create :: "filesystem \<Rightarrow> path \<Rightarrow> node \<Rightarrow> exc + filesystem" where
  "create fs p nd =
     (case locate fs p of
        None \<Rightarrow> (if exists fs (dirname p) then Inl NotADirectoryError else Inl FileNotFoundError)
      | Some q \<Rightarrow>
          (if lookup fs q \<noteq> None then Inl FileExistsError
           else Inr (AList.update q nd fs)))"

definition os_symlink :: "linktext \<Rightarrow> path \<Rightarrow> filesystem \<Rightarrow> exc + filesystem" where
  "os_symlink t dst fs = create fs dst (Link t)"

definition os_mkdir :: "filesystem \<Rightarrow> path \<Rightarrow> exc + filesystem" where
  "os_mkdir fs p = create fs p Dir"

text \<open>
  \<^verbatim>\<open>os.makedirs(name)\<close> with \<^verbatim>\<open>exist_ok=False\<close>: when the parent does not exist it is made
  first, a \<^verbatim>\<open>FileExistsError\<close> of that recursive call being ignored; then \<^verbatim>\<open>mkdir(name)\<close>.
\<close>

function os_makedirs :: "filesystem \<Rightarrow> path \<Rightarrow> exc + filesystem" where
  "os_makedirs fs p =
     (if p = [] then Inl FileExistsError
      else
        (case (if \<not> exists fs (dirname p)
               then (case os_makedirs fs (dirname p) of
                       Inl e \<Rightarrow> (if e = FileExistsError then Inr fs else Inl e)
                     | Inr fs1 \<Rightarrow> Inr fs1)
               else Inr fs) of
           Inl e \<Rightarrow> Inl e
         | Inr fs1 \<Rightarrow> os_mkdir fs1 p))"
  by pat_completeness auto
termination
  by (relation "measure (\<lambda>(fs, p). length p)") (auto simp: dirname_def)

declare os_makedirs.simps [simp del]

text \<open>
  \<^verbatim>\<open>open(path, "w")\<close> followed by \<^verbatim>\<open>write\<close>: an existing file is replaced, a link is written
  through (its text read from the directory that holds it), a directory is refused, a
  free name is created in its directory.
\<close>

fun write_file :: "nat \<Rightarrow> filesystem \<Rightarrow> path \<Rightarrow> string list \<Rightarrow> exc + filesystem" where
  "write_file n fs p ls =
     (case locate fs p of
        None \<Rightarrow> Inl FileNotFoundError
      | Some q \<Rightarrow>
          (case lookup fs q of
             Some Dir \<Rightarrow> Inl IsADirectoryError
           | Some (File old) \<Rightarrow> Inr (AList.update q (File ls) fs)
           | Some (Link t) \<Rightarrow>
               (case n of
                  0 \<Rightarrow> Inl OSError
                | Suc m \<Rightarrow>
                    write_file m fs
                      (case t of Relative r \<Rightarrow> butlast q @ r | Absolute a \<Rightarrow> a) ls)
           | None \<Rightarrow> Inr (AList.update q (File ls) fs)))"

text \<open>
  \<^verbatim>\<open>os.path.relpath(path, start)\<close>: both paths are normalised as text; the result has as
  many \<^verbatim>\<open>..\<close> as \<open>start\<close> has components beyond the common prefix, then the rest of
  \<open>path\<close>; it is \<^verbatim>\<open>.\<close> when nothing is left. The file system is not consulted.
\<close>

fun common_prefix_len :: "'a list \<Rightarrow> 'a list \<Rightarrow> nat" where
  "common_prefix_len (x # xs) (y # ys) = (if x = y then Suc (common_prefix_len xs ys) else 0)"
| "common_prefix_len _ _ = 0"

definition relpath :: "path \<Rightarrow> path \<Rightarrow> string list" where
  "relpath p start =
     (let start_list = abspath start;
          path_list = abspath p;
          i = common_prefix_len start_list path_list;
          rel_list = replicate (length start_list - i) ''..'' @ drop i path_list
      in if rel_list = [] then [''.''] else rel_list)"

text \<open>
  The names of the entries of a directory (\<^verbatim>\<open>os.listdir\<close> without its errors: the empty
  list when \<open>d\<close> does not lead to a directory), in the order of the table.
\<close>

definition listdir :: "filesystem \<Rightarrow> path \<Rightarrow> string list" where
  "listdir fs d =
     (case resolve 40 fs [] d of
        None \<Rightarrow> []
      | Some q \<Rightarrow>
          (if lookup fs q = Some Dir
           then remdups (map (\<lambda>kv. last (fst kv))
                           (filter (\<lambda>kv. fst kv \<noteq> [] \<and> butlast (fst kv) = q) fs))
           else []))"

definition endswith :: "string \<Rightarrow> string \<Rightarrow> bool" where
  "endswith s suf = (length suf \<le> length s \<and> drop (length s - length suf) s = suf)"

definition startswith :: "string \<Rightarrow> string \<Rightarrow> bool" where
  "startswith s pre = (take (length pre) s = pre)"

text \<open>
  \<^verbatim>\<open>glob.glob(os.path.join(d, "*" + suf))\<close>: the entries of \<open>d\<close> whose name ends with \<open>suf\<close>
  (matching is case-sensitive) and does not start with a dot, as paths below \<open>d\<close>.
\<close>

definition glob_suffix :: "filesystem \<Rightarrow> path \<Rightarrow> string \<Rightarrow> path list" where
  "glob_suffix fs d suf =
     map (join d) (filter (\<lambda>n. \<not> startswith n ''.'' \<and> endswith n suf) (listdir fs d))"

text \<open>
  \<^verbatim>\<open>shutil.rmtree\<close>: a directory goes with everything below it; a link or a file is
  refused.
\<close>

definition rmtree :: "filesystem \<Rightarrow> path \<Rightarrow> exc + filesystem" where
  "rmtree fs p =
     (case locate fs p of
        None \<Rightarrow> Inl FileNotFoundError
      | Some q \<Rightarrow>
          (case lookup fs q of
             Some Dir \<Rightarrow> Inr (filter (\<lambda>kv. take (length q) (fst kv) \<noteq> q) fs)
           | Some (Link t) \<Rightarrow> Inl OSError
           | Some (File ls) \<Rightarrow> Inl NotADirectoryError
           | None \<Rightarrow> Inl FileNotFoundError))"

section \<open>Console output and the state of a run\<close>

text \<open>
  The messages the code prints, by kind and with the values they show. \<open>Called_download_dem\<close>
  and \<open>Called_download_orbit\<close> are not prints: they record that the collaborator was called.
\<close>

datatype msg =
    Link_failed_no_source path
  | Link_created path "string list"
  | Link_not_symlink path
  | Link_exception exc
  | Dem_file_missing path
  | Dem_link_error exc
  | Unparsable_dates string string
  | Ignored_line string
  | Roi_wrong_count string
  | Roi_error exc
  | Existing_dem path
  | Downloading_dem string
  | Dem_ready path
  | Dem_metadata_missing "string list"
  | Dem_download_failed exc
  | No_roi
  | No_api_key
  | Skip_orbit_download
  | Orbit_range string string
  | Few_orbit_files nat
  | Orbit_ready nat
  | Resource_preparation_failed exc
  | Api_key_missing
  | Task_line nat string string
  | Called_download_dem
  | Called_download_orbit string string

record world =
  fs :: filesystem
  out :: "msg list"
  cmds :: "retry_event list"

definition print :: "msg \<Rightarrow> world \<Rightarrow> world" where
  "print m w = w\<lparr>out := out w @ [m]\<rparr>"

section \<open>Atomic link\<close>

text \<open>
  \<^verbatim>\<open>atomic_link\<close>, lines 84 to 111. The test of the source and the removal of what
  occupies the destination are outside the \<^verbatim>\<open>try\<close>; \<^verbatim>\<open>relpath\<close>, \<^verbatim>\<open>symlink\<close> and the
  \<^verbatim>\<open>islink\<close> test are inside it, so an error of \<^verbatim>\<open>symlink\<close> becomes \<^verbatim>\<open>return False\<close>.
\<close>

definition atomic_link :: "path \<Rightarrow> path \<Rightarrow> world \<Rightarrow> (exc + bool) \<times> world" where
  "atomic_link src dst w =
     (if \<not> exists (fs w) src then (Inr False, print (Link_failed_no_source src) w)
      else
        (case (if lexists (fs w) dst then os_remove (fs w) dst else Inr (fs w)) of
           Inl e \<Rightarrow> (Inl e, w)
         | Inr fs1 \<Rightarrow>
             (let rel_src = relpath src (dirname dst) in
              case os_symlink (Relative rel_src) dst fs1 of
                Inl e \<Rightarrow> (Inr False, print (Link_exception e) (w\<lparr>fs := fs1\<rparr>))
              | Inr fs2 \<Rightarrow>
                  (if islink fs2 dst
                   then (Inr True, print (Link_created dst rel_src) (w\<lparr>fs := fs2\<rparr>))
                   else (Inr False, print (Link_not_symlink dst) (w\<lparr>fs := fs2\<rparr>))))))"

section \<open>Strings\<close>

text \<open>
  Scene identifiers, lines and environment values are ASCII strings. \<open>is_space\<close> is the
  ASCII white space of \<^verbatim>\<open>str.strip()\<close> and \<^verbatim>\<open>str.split()\<close>.
\<close>

definition is_space :: "char \<Rightarrow> bool" where
  "is_space c = (c \<in> set [CHR 0x09, CHR 0x0A, CHR 0x0B, CHR 0x0C, CHR 0x0D,
                           CHR 0x1C, CHR 0x1D, CHR 0x1E, CHR 0x1F, CHR 0x20])"

definition is_digit :: "char \<Rightarrow> bool" where
  "is_digit c = (c \<in> set ''0123456789'')"

definition lstrip :: "(char \<Rightarrow> bool) \<Rightarrow> string \<Rightarrow> string" where
  "lstrip P s = dropWhile P s"

definition rstrip :: "(char \<Rightarrow> bool) \<Rightarrow> string \<Rightarrow> string" where
  "rstrip P s = rev (dropWhile P (rev s))"

definition strip :: "(char \<Rightarrow> bool) \<Rightarrow> string \<Rightarrow> string" where
  "strip P s = rstrip P (lstrip P s)"

text \<open>
  \<^verbatim>\<open>s.split(sep)\<close> for a separator of one character, here any character that satisfies
  \<open>P\<close>: the pieces between the separators, empty pieces included.
\<close>

fun split_where :: "(char \<Rightarrow> bool) \<Rightarrow> string \<Rightarrow> string list" where
  "split_where P [] = [[]]"
| "split_where P (c # cs) =
     (if P c then [] # split_where P cs
      else (case split_where P cs of [] \<Rightarrow> [[c]] | w # ws \<Rightarrow> (c # w) # ws))"

definition split_on :: "char \<Rightarrow> string \<Rightarrow> string list" where
  "split_on sep s = split_where (\<lambda>c. c = sep) s"

text \<open>\<^verbatim>\<open>s.split()\<close>: the maximal runs of characters that are not white space.\<close>

definition split_ws :: "string \<Rightarrow> string list" where
  "split_ws s = filter (\<lambda>w. w \<noteq> []) (split_where is_space s)"

section \<open>Dates\<close>

text \<open>
  \<^verbatim>\<open>name.split('_')[5][:8]\<close>, used by \<^verbatim>\<open>get_date_range_from_pairs\<close> and \<^verbatim>\<open>worker_task\<close>:
  \<^verbatim>\<open>IndexError\<close> when the name has fewer than six fields.
\<close>

definition date_field :: "string \<Rightarrow> exc + string" where
  "date_field name =
     (let parts = split_on CHR ''_'' name
      in if 5 < length parts then Inr (take 8 (parts ! 5)) else Inl IndexError)"

text \<open>
  The loop of \<^verbatim>\<open>get_date_range_from_pairs\<close>, lines 60 to 70: both fields are read before
  either is appended, so a pair with one short name adds nothing.
\<close>

fun collect_dates ::
  "(string \<times> string) list \<Rightarrow> string list \<Rightarrow> msg list \<Rightarrow> string list \<times> msg list" where
  "collect_dates [] dates ms = (dates, ms)"
| "collect_dates ((ref, sec) # ps) dates ms =
     (case date_field ref of
        Inl e \<Rightarrow> collect_dates ps dates (ms @ [Unparsable_dates ref sec])
      | Inr d1 \<Rightarrow>
          (case date_field sec of
             Inl e \<Rightarrow> collect_dates ps dates (ms @ [Unparsable_dates ref sec])
           | Inr d2 \<Rightarrow> collect_dates ps (dates @ [d1, d2]) ms))"

text \<open>
  \<^verbatim>\<open>get_date_range_from_pairs\<close>, lines 54 to 81: \<^verbatim>\<open>(None, None)\<close> for no dates, else the
  first and the last of the sorted list. Strings are ordered as Python orders them:
  lexicographically by character code.
\<close>

definition get_date_range_from_pairs ::
  "(string \<times> string) list \<Rightarrow> (string option \<times> string option) \<times> msg list" where
  "get_date_range_from_pairs pairs =
     (let (dates, ms) = collect_dates pairs [] []
      in if dates = [] then ((None, None), ms)
         else (let sorted_dates = sort dates
               in ((Some (hd sorted_dates), Some (last sorted_dates)), ms)))"

text \<open>
  \<^verbatim>\<open>re.search(r"(\d{8})T\d{6}", safe_name)\<close> of \<^verbatim>\<open>get_s1_date\<close>, lines 142 to 152: the
  leftmost place where eight digits, a \<^verbatim>\<open>T\<close> and six digits follow each other.
\<close>

definition date_match :: "string \<Rightarrow> bool" where
  "date_match s =
     (15 \<le> length s \<and> list_all is_digit (take 8 s) \<and> s ! 8 = CHR ''T''
      \<and> list_all is_digit (take 6 (drop 9 s)))"

fun search_date :: "string \<Rightarrow> string option" where
  "search_date [] = None"
| "search_date (c # cs) = (if date_match (c # cs) then Some (take 8 (c # cs)) else search_date cs)"

definition get_s1_date :: "string \<Rightarrow> string" where
  "get_s1_date safe_name = (case search_date safe_name of Some d \<Rightarrow> d | None \<Rightarrow> ''UnknownDate'')"

text \<open>
  The dates that the positional rule reads from a list of pairs, stated on its own:
  for each pair whose two names both have at least six fields separated by
  underscores, the first eight characters of the sixth field of each name.
\<close>

definition positional_dates :: "(string \<times> string) list \<Rightarrow> string list" where
  "positional_dates pairs =
     concat (map (\<lambda>(ref, sec).
       if 5 < length (split_on CHR ''_'' ref) \<and> 5 < length (split_on CHR ''_'' sec)
       then [take 8 (split_on CHR ''_'' ref ! 5), take 8 (split_on CHR ''_'' sec ! 5)]
       else []) pairs)"

section \<open>The pair list\<close>

text \<open>
  \<^verbatim>\<open>re.findall(r"S1[AB]_IW_SLC__[0-9A-Za-zT_\-]+\.SAFE", line)\<close>. The dot is not in the
  character class, so a match is the prefix, the longest run of class characters (at
  least one) and \<^verbatim>\<open>.SAFE\<close> right after it. \<open>safe_match s\<close> is the length of a match at
  the start of \<open>s\<close>; \<open>findall_safe k s\<close> scans \<open>s\<close> with \<open>k\<close> characters of the last match
  still to pass.
\<close>

definition is_id_char :: "char \<Rightarrow> bool" where
  "is_id_char c =
     (c \<in> set ''0123456789ABCDEFGHIJKLMNOPQRSTUVWXYZabcdefghijklmnopqrstuvwxyz_-'')"

definition safe_match :: "string \<Rightarrow> nat option" where
  "safe_match s =
     (if startswith s ''S1A_IW_SLC__'' \<or> startswith s ''S1B_IW_SLC__''
      then (let rest = drop 12 s; run = takeWhile is_id_char rest
            in if run \<noteq> [] \<and> startswith (dropWhile is_id_char rest) ''.SAFE''
               then Some (12 + length run + 5) else None)
      else None)"

fun findall_safe :: "nat \<Rightarrow> string \<Rightarrow> string list" where
  "findall_safe k [] = []"
| "findall_safe (Suc k) (c # cs) = findall_safe k cs"
| "findall_safe 0 (c # cs) =
     (case safe_match (c # cs) of
        Some n \<Rightarrow> take n (c # cs) # findall_safe (n - 1) cs
      | None \<Rightarrow> findall_safe 0 cs)"

datatype line_result = Skipped | Parsed string string | Malformed string

definition is_quote :: "char \<Rightarrow> bool" where
  "is_quote c = (c = CHR 0x22)"

definition is_apostrophe :: "char \<Rightarrow> bool" where
  "is_apostrophe c = (c = CHR 0x27)"

definition clean_token :: "string \<Rightarrow> string" where
  "clean_token p = strip is_apostrophe (strip is_quote (strip is_space p))"

text \<open>
  The body of the loop of \<^verbatim>\<open>load_pairs_from_file\<close>, lines 121 to 139. The
  \<^verbatim>\<open>replace\<close> of line 130 replaces a double quote by itself and is left out.
\<close>

definition parse_line :: "string \<Rightarrow> line_result" where
  "parse_line raw =
     (let line = strip is_space raw
      in if line = [] \<or> startswith line ''#'' then Skipped
         else (let found = findall_safe 0 line
               in if length found = 2 then Parsed (found ! 0) (found ! 1)
                  else (let cleaned = strip is_space
                                        (rstrip (\<lambda>c. c = CHR '')'')
                                          (lstrip (\<lambda>c. c = CHR ''('') (strip is_space line)));
                            parts = (if CHR '','' \<in> set cleaned
                                     then map clean_token
                                            (filter (\<lambda>p. strip is_space p \<noteq> [])
                                               (split_on CHR '','' cleaned))
                                     else map clean_token
                                            (filter (\<lambda>p. strip is_space p \<noteq> [])
                                               (split_ws cleaned)))
                        in if length parts = 2 then Parsed (parts ! 0) (parts ! 1)
                           else Malformed line)))"

fun parse_lines :: "string list \<Rightarrow> (string \<times> string) list \<times> msg list" where
  "parse_lines [] = ([], [])"
| "parse_lines (l # ls) =
     (let (ps, ms) = parse_lines ls
      in case parse_line l of
           Skipped \<Rightarrow> (ps, ms)
         | Parsed a b \<Rightarrow> ((a, b) # ps, ms)
         | Malformed line \<Rightarrow> (ps, Ignored_line line # ms))"

text \<open>
  \<^verbatim>\<open>load_pairs_from_file\<close>, lines 114 to 140: the empty list when the path does not
  exist; otherwise the file is opened, which fails on a directory.
\<close>

definition load_pairs_from_file :: "path \<Rightarrow> world \<Rightarrow> (exc + (string \<times> string) list) \<times> world" where
  "load_pairs_from_file file_path w =
     (if \<not> exists (fs w) file_path then (Inr [], w)
      else
        (case stat (fs w) file_path of
           Some (File ls) \<Rightarrow>
             (let (ps, ms) = parse_lines ls in (Inr ps, w\<lparr>out := out w @ ms\<rparr>))
         | Some Dir \<Rightarrow> (Inl IsADirectoryError, w)
         | _ \<Rightarrow> (Inl FileNotFoundError, w)))"

section \<open>Configuration\<close>

text \<open>
  The directories of lines 21 to 27 and the pair list of line 175, below the project
  root.
\<close>

definition RAW_DIR :: "path \<Rightarrow> path" where
  "RAW_DIR project_root = project_root @ [''data'', ''raw'']"

definition DEM_DIR :: "path \<Rightarrow> path" where
  "DEM_DIR project_root = project_root @ [''data'', ''dem'']"

definition ORBIT_DIR :: "path \<Rightarrow> path" where
  "ORBIT_DIR project_root = project_root @ [''data'', ''orbit_data'']"

definition RUNS_DIR :: "path \<Rightarrow> path" where
  "RUNS_DIR project_root = project_root @ [''data'', ''runs'']"

definition DEFAULT_PAIRS_FILE :: "path \<Rightarrow> path" where
  "DEFAULT_PAIRS_FILE project_root = project_root @ [''data'', ''pairs.txt'']"

definition START_STEP :: string where
  "START_STEP = ''startup''"

text \<open>A string from the environment is true when it is set and not empty.\<close>

definition truthy :: "string option \<Rightarrow> bool" where
  "truthy v = (case v of None \<Rightarrow> False | Some s \<Rightarrow> s \<noteq> [])"

text \<open>
  Lines 159 to 172 at module level. The result is the binding of the global name
  \<^verbatim>\<open>ROI\<close>: \<open>None\<close> when no assignment to it ran, so that the name is not defined.
  \<open>float_of\<close> is Python's \<^verbatim>\<open>float\<close> on a string, \<open>None\<close> for its \<^verbatim>\<open>ValueError\<close>.
\<close>

definition parse_roi ::
  "(string \<Rightarrow> 'f option) \<Rightarrow> string option \<Rightarrow> ('f \<times> 'f \<times> 'f \<times> 'f) option \<times> msg list" where
  "parse_roi float_of roi_env =
     (if \<not> truthy roi_env then (None, [])
      else
        (let raw = (case roi_env of Some s \<Rightarrow> s | None \<Rightarrow> []);
             cleaned = strip is_space
                         (rstrip (\<lambda>c. c = CHR '']'') (lstrip (\<lambda>c. c = CHR ''['') (strip is_space raw)));
             cleaned = map (\<lambda>c. if c = CHR '';'' \<or> c = CHR '' '' then CHR '','' else c) cleaned;
             parts = filter (\<lambda>p. p \<noteq> []) (split_on CHR '','' cleaned)
         in if length parts = 4
            then (case map float_of parts of
                    [Some a, Some b, Some c, Some d] \<Rightarrow> (Some (a, b, c, d), [])
                  | _ \<Rightarrow> (None, [Roi_error ValueError]))
            else (None, [Roi_wrong_count raw])))"

text \<open>
  What a run is given: the project root, the environment, the two acquisition
  collaborators of \<^verbatim>\<open>modules/get_dem.py\<close> and \<^verbatim>\<open>modules/get_orbit.py\<close> as functions on
  the file system, and the external processor \<open>proc\<close>: \<open>proc cwd cmd k\<close> is the outcome of
  running \<open>cmd\<close> in \<open>cwd\<close> after \<open>k\<close> earlier attempts of the same call of
  \<^verbatim>\<open>run_with_retry\<close>.
\<close>

record 'f config =
  project_root :: path
  API_KEY :: "string option"
  ROI :: "('f \<times> 'f \<times> 'f \<times> 'f) option"
  DEM_BASE_NAME :: string
  WORKERS :: int
  download_dem :: "('f \<times> 'f \<times> 'f \<times> 'f) \<Rightarrow> path \<Rightarrow> string option \<Rightarrow> filesystem \<Rightarrow> (exc + path) \<times> filesystem"
  download_orbit :: "string \<Rightarrow> string \<Rightarrow> path \<Rightarrow> filesystem \<Rightarrow> (exc + unit) \<times> filesystem"
  proc :: "path \<Rightarrow> string \<Rightarrow> nat \<Rightarrow> cmd_outcome"

section \<open>Shared resources\<close>

text \<open>
  The \<^verbatim>\<open>try\<close> block of lines 199 to 214. Every exception raised in it, the one of line
  212 included, is caught by line 213 and printed; \<^verbatim>\<open>target_dem\<close> keeps the value it had
  when the exception was raised. The result is the value of \<^verbatim>\<open>target_dem\<close> afterwards.
\<close>

definition try_download_dem ::
  "'f config \<Rightarrow> ('f \<times> 'f \<times> 'f \<times> 'f) \<Rightarrow> path \<Rightarrow> world \<Rightarrow> path \<times> world" where
  "try_download_dem s roi target_dem w =
     (case download_dem s roi (DEM_DIR (project_root s)) (API_KEY s) (fs w) of
        (Inl e, fs1) \<Rightarrow>
          (target_dem, print (Dem_download_failed e) (print Called_download_dem (w\<lparr>fs := fs1\<rparr>)))
      | (Inr downloaded, fs1) \<Rightarrow>
          (let w1 = print (Dem_ready downloaded) (print Called_download_dem (w\<lparr>fs := fs1\<rparr>))
           in if \<not> exists fs1 (add_ext downloaded ''.xml'') \<or> \<not> exists fs1 (add_ext downloaded ''.vrt'')
              then (if isdir fs1 (DEM_DIR (project_root s))
                    then (downloaded,
                          print (Dem_download_failed MetadataMissing)
                            (print (Dem_metadata_missing (sort (listdir fs1 (DEM_DIR (project_root s))))) w1))
                    else (downloaded,
                          print (Dem_download_failed FileNotFoundError)
                            (print (Dem_metadata_missing []) w1)))
              else (downloaded, w1)))"

text \<open>Lines 224 to 249: the orbit files, then the return of the terrain path.\<close>

definition prepare_orbits :: "'f config \<Rightarrow> path \<Rightarrow> world \<Rightarrow> (exc + path) \<times> world" where
  "prepare_orbits s target_dem w =
     (case load_pairs_from_file (DEFAULT_PAIRS_FILE (project_root s)) w of
        (Inl e, w1) \<Rightarrow> (Inl e, w1)
      | (Inr pairs, w1) \<Rightarrow>
          (let (range, ms) = get_date_range_from_pairs pairs;
               w2 = w1\<lparr>out := out w1 @ ms\<rparr>;
               orbit_dir = ORBIT_DIR (project_root s)
           in case (case range of
                      (Some start_date, Some end_date) \<Rightarrow>
                        (if start_date = [] then (Inr (), print Skip_orbit_download w2)
                         else (case download_orbit s start_date end_date orbit_dir (fs w2) of
                                 (r, fs3) \<Rightarrow>
                                   (r, print (Called_download_orbit start_date end_date)
                                         (print (Orbit_range start_date end_date) (w2\<lparr>fs := fs3\<rparr>)))))
                    | _ \<Rightarrow> (Inr (), print Skip_orbit_download w2)) of
                (Inl e, w3) \<Rightarrow> (Inl e, w3)
              | (Inr u, w3) \<Rightarrow>
                  (let n = length (glob_suffix (fs w3) orbit_dir ''.EOF'' @ glob_suffix (fs w3) orbit_dir ''.eof'')
                   in (Inr target_dem, print (if n < 2 then Few_orbit_files n else Orbit_ready n) w3))))"

text \<open>
  \<^verbatim>\<open>prepare_shared_resources\<close>, lines 182 to 249. Line 193 returns as soon as the terrain
  raster and its two metadata files exist. Line 198 reads the global \<^verbatim>\<open>ROI\<close>, outside any
  \<^verbatim>\<open>try\<close>: \<^verbatim>\<open>NameError\<close> when the name is not defined. A defined \<^verbatim>\<open>ROI\<close> is a tuple of four
  numbers, which is true.
\<close>

definition prepare_shared_resources :: "'f config \<Rightarrow> string \<Rightarrow> world \<Rightarrow> (exc + path) \<times> world" where
  "prepare_shared_resources s custom_name w =
     (let target_dem = join (DEM_DIR (project_root s)) (custom_name @ ''.wgs84'')
      in if exists (fs w) target_dem \<and> exists (fs w) (add_ext target_dem ''.xml'')
            \<and> exists (fs w) (add_ext target_dem ''.vrt'')
         then (Inr target_dem, print (Existing_dem target_dem) w)
         else
           (let w1 = print (Downloading_dem custom_name) w
            in case ROI s of
                 None \<Rightarrow> (Inl NameError, w1)
               | Some roi \<Rightarrow>
                   (if truthy (API_KEY s)
                    then (case try_download_dem s roi target_dem w1 of
                            (target_dem2, w2) \<Rightarrow> prepare_orbits s target_dem2 w2)
                    else prepare_orbits s target_dem (print No_api_key w1))))"

section \<open>The unit of work\<close>

definition folder_name :: "string \<Rightarrow> string \<Rightarrow> string" where
  "folder_name ref_name sec_name =
     (case (date_field ref_name, date_field sec_name) of
        (Inr ref_date, Inr sec_date) \<Rightarrow> ''run_'' @ ref_date @ ''_'' @ sec_date
      | _ \<Rightarrow> ''run_'' @ take 10 ref_name @ ''_'' @ take 10 sec_name)"

text \<open>The loop of lines 316 and 317 over the result of the \<^verbatim>\<open>glob\<close> of line 315.\<close>

fun link_orbits :: "path list \<Rightarrow> path \<Rightarrow> world \<Rightarrow> (exc + unit) \<times> world" where
  "link_orbits [] run_dir w = (Inr (), w)"
| "link_orbits (eof # rest) run_dir w =
     (case atomic_link eof (join run_dir (basename eof)) w of
        (Inl e, w1) \<Rightarrow> (Inl e, w1)
      | (Inr b, w1) \<Rightarrow> link_orbits rest run_dir w1)"

text \<open>The loop of lines 322 to 327 over the three extensions.\<close>

fun link_dem :: "string list \<Rightarrow> path \<Rightarrow> path \<Rightarrow> world \<Rightarrow> (exc + unit) \<times> world" where
  "link_dem [] dem_path run_dir w = (Inr (), w)"
| "link_dem (ext # exts) dem_path run_dir w =
     (let src = add_ext dem_path ext
      in if exists (fs w) src
         then (case atomic_link src (join run_dir (basename src)) w of
                 (Inl e, w1) \<Rightarrow> (Inl e, w1)
               | (Inr b, w1) \<Rightarrow> link_dem exts dem_path run_dir w1)
         else link_dem exts dem_path run_dir (print (Dem_file_missing src) w))"

text \<open>
  Lines 320 to 329: the \<^verbatim>\<open>try\<close> around the terrain links turns an exception into a
  printed warning. A terrain path is an absolute path, never the empty string, so the
  test of line 321 is true.
\<close>

definition try_link_dem :: "path \<Rightarrow> path \<Rightarrow> world \<Rightarrow> world" where
  "try_link_dem dem_path run_dir w =
     (case link_dem [[], ''.xml'', ''.vrt''] dem_path run_dir w of
        (Inl e, w1) \<Rightarrow> print (Dem_link_error e) w1
      | (Inr u, w1) \<Rightarrow> w1)"

definition dq :: string where
  "dq = [CHR 0x22]"

definition xml_property :: "string \<Rightarrow> string \<Rightarrow> string" where
  "xml_property name val = ''<property name='' @ dq @ name @ dq @ ''>'' @ val @ ''</property>''"

definition xml_component :: "string \<Rightarrow> string" where
  "xml_component name = ''<component name='' @ dq @ name @ dq @ ''>''"

definition xml_content :: "string \<Rightarrow> string \<Rightarrow> string \<Rightarrow> string list" where
  "xml_content dem_basename ref_name sec_name =
     [''<?xml version='' @ dq @ ''1.0'' @ dq @ '' encoding='' @ dq @ ''UTF-8'' @ dq @ ''?>'',
      ''<topsApp>'',
      xml_component ''topsinsar'',
      xml_property ''sensor name'' ''SENTINEL1'',
      xml_property ''swaths'' ''[1,2,3]'',
      xml_property ''do unwrap'' ''True'',
      xml_property ''unwrapper name'' ''snaphu_mcf'',
      xml_property ''demFilename'' dem_basename,
      xml_component ''reference'',
      xml_property ''output directory'' ''master'',
      xml_property ''safe'' ref_name,
      ''</component>'',
      xml_component ''secondary'',
      xml_property ''output directory'' ''slave'',
      xml_property ''safe'' sec_name,
      ''</component>'',
      ''</component>'',
      ''</topsApp>'']"

text \<open>\<^verbatim>\<open>generate_xml\<close>, lines 268 to 294.\<close>

definition generate_xml :: "path \<Rightarrow> string \<Rightarrow> string \<Rightarrow> path \<Rightarrow> filesystem \<Rightarrow> exc + filesystem" where
  "generate_xml run_dir ref_name sec_name dem_full_path fs0 =
     write_file 40 fs0 (join run_dir ''topsApp.xml'')
       (xml_content (basename dem_full_path) ref_name sec_name)"

text \<open>\<^verbatim>\<open>cleanup_pickles\<close>, lines 47 to 51: every exception is swallowed.\<close>

definition cleanup_pickles :: "path \<Rightarrow> filesystem \<Rightarrow> filesystem" where
  "cleanup_pickles target_dir fs0 =
     (if exists fs0 (join target_dir ''pickle'')
      then (case rmtree fs0 (join target_dir ''pickle'') of Inl e \<Rightarrow> fs0 | Inr fs1 \<Rightarrow> fs1)
      else fs0)"

text \<open>
  Staging, lines 297 to 342 of \<^verbatim>\<open>worker_task\<close>: the run directory, the links, the
  configuration file, the cache. Only the terrain links are inside a \<^verbatim>\<open>try\<close>. The value
  of each \<^verbatim>\<open>atomic_link\<close> is dropped. The result is the run directory.
\<close>

definition stage :: "path \<Rightarrow> string \<Rightarrow> string \<Rightarrow> path \<Rightarrow> world \<Rightarrow> (exc + path) \<times> world" where
  "stage root ref_name sec_name dem_path w =
     (let run_dir = join (RUNS_DIR root) (folder_name ref_name sec_name)
      in case (if \<not> exists (fs w) run_dir then os_makedirs (fs w) run_dir else Inr (fs w)) of
           Inl e \<Rightarrow> (Inl e, w)
         | Inr fs1 \<Rightarrow>
             (case link_orbits (glob_suffix fs1 (ORBIT_DIR root) ''.EOF'') run_dir (w\<lparr>fs := fs1\<rparr>) of
                (Inl e, w2) \<Rightarrow> (Inl e, w2)
              | (Inr u, w2) \<Rightarrow>
                  (case atomic_link (join (RAW_DIR root) ref_name) (join run_dir ref_name)
                          (try_link_dem dem_path run_dir w2) of
                     (Inl e, w4) \<Rightarrow> (Inl e, w4)
                   | (Inr b, w4) \<Rightarrow>
                       (case atomic_link (join (RAW_DIR root) sec_name) (join run_dir sec_name) w4 of
                          (Inl e, w5) \<Rightarrow> (Inl e, w5)
                        | (Inr b2, w5) \<Rightarrow>
                            (case generate_xml run_dir ref_name sec_name dem_path (fs w5) of
                               Inl e \<Rightarrow> (Inl e, w5)
                             | Inr fs6 \<Rightarrow>
                                 (Inr run_dir,
                                  w5\<lparr>fs := (if START_STEP = ''startup''
                                             then cleanup_pickles run_dir fs6 else fs6)\<rparr>))))))"

definition PHASE_1 :: "string list" where
  "PHASE_1 = [''startup'', ''preprocess'', ''computeBaselines'', ''verifyDEM'', ''topo'',
              ''subsetoverlaps'', ''coarseoffsets'', ''coarseresamp'', ''overlapifg'',
              ''prepesd'', ''esd'', ''rangecoreg'', ''fineoffsets'']"

definition PHASE_2_START :: string where
  "PHASE_2_START = ''fineresamp''"

definition PHASE_2_END :: string where
  "PHASE_2_END = ''geocode''"

definition steps_cmd :: "string \<Rightarrow> string \<Rightarrow> string" where
  "steps_cmd first_step last_step =
     ''topsApp.py topsApp.xml --steps --start='' @ first_step @ '' --end='' @ last_step"

text \<open>\<^verbatim>\<open>current_steps\<close>, lines 354 to 357.\<close>

definition current_steps :: "string list" where
  "current_steps =
     (if START_STEP \<in> set PHASE_1 then dropWhile (\<lambda>s. s \<noteq> START_STEP) PHASE_1 else [])"

text \<open>
  The result of a unit: the string of line 384 or of line 387, by its kind, with the
  folder name of its prefix and, for a failure, the exception whose text it shows. The
  times are left out.
\<close>

datatype task_result = Success string | Failure string exc

text \<open>
  The loop of lines 360 to 369: each step with \<^verbatim>\<open>retries=2\<close> and the default delay of 3
  seconds. The first exception ends the loop; it is the result \<open>Some e\<close>.
\<close>

fun run_phase1 ::
  "(string \<Rightarrow> nat \<Rightarrow> cmd_outcome) \<Rightarrow> string list \<Rightarrow> retry_event list \<Rightarrow> exc option \<times> retry_event list" where
  "run_phase1 run [] evs = (None, evs)"
| "run_phase1 run (step # rest) evs =
     (case run_with_retry (run (steps_cmd step step)) (steps_cmd step step) 2 3 of
        (Inl e, es) \<Rightarrow> (Some e, evs @ es)
      | (Inr r, es) \<Rightarrow> run_phase1 run rest (evs @ es))"

text \<open>
  The \<^verbatim>\<open>try\<close> block of lines 352 to 387: Phase 1, then Phase 2 as one call with
  \<^verbatim>\<open>retries=1\<close> and \<^verbatim>\<open>delay=5\<close>; \<^verbatim>\<open>except Exception\<close> turns every exception into the
  failure string.
\<close>

definition run_phases ::
  "(string \<Rightarrow> nat \<Rightarrow> cmd_outcome) \<Rightarrow> string \<Rightarrow> task_result \<times> retry_event list" where
  "run_phases run folder =
     (case run_phase1 run current_steps [] of
        (Some e, evs) \<Rightarrow> (Failure folder e, evs)
      | (None, evs) \<Rightarrow>
          (case run_with_retry (run (steps_cmd PHASE_2_START PHASE_2_END))
                  (steps_cmd PHASE_2_START PHASE_2_END) 1 5 of
             (Inl e, es) \<Rightarrow> (Failure folder e, evs @ es)
           | (Inr r, es) \<Rightarrow> (Success folder, evs @ es)))"

text \<open>\<^verbatim>\<open>worker_task\<close>, lines 296 to 387: an exception of staging leaves the function.\<close>

definition worker_task ::
  "'f config \<Rightarrow> string \<times> string \<times> path \<Rightarrow> world \<Rightarrow> (exc + task_result) \<times> world" where
  "worker_task s args w =
     (case args of (ref_name, sec_name, dem_path) \<Rightarrow>
        (case stage (project_root s) ref_name sec_name dem_path w of
           (Inl e, w1) \<Rightarrow> (Inl e, w1)
         | (Inr run_dir, w1) \<Rightarrow>
             (case run_phases (proc s run_dir) (folder_name ref_name sec_name) of
                (res, evs) \<Rightarrow> (Inr res, w1\<lparr>cmds := cmds w1 @ evs\<rparr>))))"

section \<open>The run\<close>

text \<open>
  The pool, lines 423 and 424: \<^verbatim>\<open>Pool(WORKERS)\<close> and \<^verbatim>\<open>pool.map(worker_task, task_args)\<close>.
  \<^verbatim>\<open>Pool.map\<close> cuts the list into chunks whose size comes from the number of tasks and
  of processes, and a process runs a chunk as \<^verbatim>\<open>list(map(worker_task, chunk))\<close>: an
  exception of a unit ends its chunk, so the units after it in the chunk never start and
  the results of the units before it are lost; the other chunks still run.
\<close>

definition chunksize :: "nat \<Rightarrow> nat \<Rightarrow> nat" where
  "chunksize n processes =
     n div (processes * 4) + (if n mod (processes * 4) = 0 then 0 else 1)"

function chunks_of :: "nat \<Rightarrow> 'a list \<Rightarrow> 'a list list" where
  "chunks_of k xs =
     (if k = 0 \<or> xs = [] then [] else take k xs # chunks_of k (drop k xs))"
  by pat_completeness auto
termination
  by (relation "measure (\<lambda>(k, xs). length xs)") auto

declare chunks_of.simps [simp del]

fun run_chunk ::
  "'f config \<Rightarrow> (string \<times> string \<times> path) list \<Rightarrow> world \<Rightarrow> (exc + task_result list) \<times> world" where
  "run_chunk s [] w = (Inr [], w)"
| "run_chunk s (t # ts) w =
     (case worker_task s t w of
        (Inl e, w1) \<Rightarrow> (Inl e, w1)
      | (Inr r, w1) \<Rightarrow>
          (case run_chunk s ts w1 of
             (Inl e, w2) \<Rightarrow> (Inl e, w2)
           | (Inr rs, w2) \<Rightarrow> (Inr (r # rs), w2)))"

text \<open>
  The chunks run here in one schedule: one after the other in the order of the list,
  each on the file system the one before left. The processes of the real pool run them
  side by side; every unit works in a run directory of its own.
\<close>

fun run_chunks ::
  "'f config \<Rightarrow> (string \<times> string \<times> path) list list \<Rightarrow> world
     \<Rightarrow> (exc + task_result list) list \<times> world" where
  "run_chunks s [] w = ([], w)"
| "run_chunks s (c # cs) w =
     (case run_chunk s c w of
        (r, w1) \<Rightarrow> (case run_chunks s cs w1 of (rs, w2) \<Rightarrow> (r # rs, w2)))"

fun first_exception :: "(exc + 'a) list \<Rightarrow> exc option" where
  "first_exception [] = None"
| "first_exception (Inl e # rs) = Some e"
| "first_exception (Inr r # rs) = first_exception rs"

text \<open>
  \<^verbatim>\<open>Pool(WORKERS)\<close> refuses less than one process with a \<^verbatim>\<open>ValueError\<close>. \<^verbatim>\<open>pool.map\<close>
  waits for all chunks; when a chunk raised, it raises the first such exception and
  returns no list, otherwise it returns the results in the order of the tasks.
\<close>

definition pool_map ::
  "'f config \<Rightarrow> (string \<times> string \<times> path) list \<Rightarrow> world \<Rightarrow> (exc + task_result list) \<times> world" where
  "pool_map s tasks w =
     (if WORKERS s < 1 then (Inl ValueError, w)
      else
        (case run_chunks s (chunks_of (chunksize (length tasks) (nat (WORKERS s))) tasks) w of
           (outcomes, w1) \<Rightarrow>
             (case first_exception outcomes of
                Some e \<Rightarrow> (Inl e, w1)
              | None \<Rightarrow>
                  (Inr (concat (map (\<lambda>r. case r of Inr rs \<Rightarrow> rs | Inl e \<Rightarrow> []) outcomes)), w1))))"

fun task_lines :: "nat \<Rightarrow> (string \<times> string) list \<Rightarrow> msg list" where
  "task_lines i [] = []"
| "task_lines i ((m, sc) # ps) = Task_line (i + 1) (get_s1_date m) (get_s1_date sc) # task_lines (i + 1) ps"

text \<open>
  How \<^verbatim>\<open>main\<close> ends: \<^verbatim>\<open>sys.exit\<close> with a status, an exception nobody caught, or the end
  of the function with the results of the pool. \<open>Completed\<close> also says that the pool ran.
\<close>

datatype main_result = SysExit nat | Uncaught exc | Completed "task_result list"

text \<open>
  \<^verbatim>\<open>main\<close>, lines 389 to 430. Nothing in \<^verbatim>\<open>main\<close> catches what the pool raises; the
  results are printed only when the pool returned them.
\<close>

definition main :: "'f config \<Rightarrow> world \<Rightarrow> main_result \<times> world" where
  "main s w =
     (if \<not> truthy (API_KEY s) then (SysExit 1, print Api_key_missing w)
      else
        (case load_pairs_from_file (DEFAULT_PAIRS_FILE (project_root s)) w of
           (Inl e, w1) \<Rightarrow> (Uncaught e, w1)
         | (Inr PAIRS, w1) \<Rightarrow>
             (case prepare_shared_resources s (DEM_BASE_NAME s) (w1\<lparr>out := out w1 @ task_lines 0 PAIRS\<rparr>) of
                (Inl e, w2) \<Rightarrow> (SysExit 1, print (Resource_preparation_failed e) w2)
              | (Inr dem_path, w2) \<Rightarrow>
                  (case pool_map s (map (\<lambda>(m, sc). (m, sc, dem_path)) PAIRS) w2 of
                     (Inl e, w3) \<Rightarrow> (Uncaught e, w3)
                   | (Inr results, w3) \<Rightarrow> (Completed results, w3)))))"

section \<open>Notions used in the statements\<close>

text \<open>
  A normalised path has no empty component and no \<^verbatim>\<open>.\<close> or \<^verbatim>\<open>..\<close> component, as the
  result of \<^verbatim>\<open>os.path.abspath\<close> has none.
\<close>

definition normalised :: "path \<Rightarrow> bool" where
  "normalised p = list_all (\<lambda>c. c \<noteq> [] \<and> c \<noteq> ''.'' \<and> c \<noteq> ''..'') p"




section \<open>Examples\<close>

text \<open>A small file system for the examples: a file \<^verbatim>\<open>/d/src\<close>, directories \<^verbatim>\<open>/r\<close>, \<^verbatim>\<open>/r/sub\<close>.\<close>

definition example_world :: world where
  "example_world =
     \<lparr>fs = [([''d''], Dir), ([''d'', ''src''], File []), ([''r''], Dir), ([''r'', ''sub''], Dir)],
      out = [], cmds = []\<rparr>"




text \<open>Scene identifiers for the examples.\<close>

definition scene_a :: string where
  "scene_a = ''S1A_IW_SLC__1SDV_20230203T034221_20230203T034248_047068_05A5A5_1234.SAFE''"

definition scene_b :: string where
  "scene_b = ''S1A_IW_SLC__1SDV_20230215T034221_20230215T034248_047243_05AB01_5678.SAFE''"

text \<open>
  A project for the examples: the directories of the layout, the two scenes in the raw
  directory, a pair list with one line, no terrain raster and no orbit file yet.
\<close>

definition example_fs :: filesystem where
  "example_fs =
     [([''proj''], Dir), ([''proj'', ''data''], Dir),
      ([''proj'', ''data'', ''raw''], Dir), ([''proj'', ''data'', ''dem''], Dir),
      ([''proj'', ''data'', ''orbit_data''], Dir), ([''proj'', ''data'', ''runs''], Dir),
      ([''proj'', ''data'', ''raw'', scene_a], Dir), ([''proj'', ''data'', ''raw'', scene_b], Dir),
      ([''proj'', ''data'', ''pairs.txt''], File [scene_a @ '' '' @ scene_b])]"

text \<open>
  The terrain raster of the default base name with its two metadata files, as a run
  that found or made them leaves them.
\<close>

definition terrain_files :: filesystem where
  "terrain_files =
     [([''proj'', ''data'', ''dem'', ''dem_standard.wgs84''], File []),
      ([''proj'', ''data'', ''dem'', ''dem_standard.wgs84.xml''], File []),
      ([''proj'', ''data'', ''dem'', ''dem_standard.wgs84.vrt''], File [])]"

text \<open>
  A configuration for the examples: credential and bounding box set, two workers, an
  external processor whose every step succeeds, an orbit collaborator that leaves two
  orbit files, and a terrain collaborator that behaves as \<^verbatim>\<open>download_dem\<close> does without
  network and without a working \<^verbatim>\<open>gdal_translate\<close>. When the converted raster of the
  bounding box and its \<^verbatim>\<open>.xml\<close> are there from an earlier run, it returns the path of the
  raster (lines 133 to 137 of \<^verbatim>\<open>get_dem.py\<close>, where the unchecked \<^verbatim>\<open>gdal_translate\<close> writes
  no \<^verbatim>\<open>.vrt\<close>); otherwise the download fails and it raises (line 180).
\<close>

definition example_config :: "int config" where
  "example_config =
     \<lparr>project_root = [''proj''],
      API_KEY = Some ''key'',
      ROI = Some (30, 31, 100, 101),
      DEM_BASE_NAME = ''dem_standard'',
      WORKERS = 2,
      download_dem = (\<lambda>roi dir key fs0.
         if exists fs0 (dir @ [''demLat_N31_S30_W100_E101.wgs84''])
            \<and> exists fs0 (dir @ [''demLat_N31_S30_W100_E101.wgs84.xml''])
         then (Inr (dir @ [''demLat_N31_S30_W100_E101.wgs84'']), fs0)
         else (Inl CollaboratorError, fs0)),
      download_orbit = (\<lambda>start_date end_date dir fs0.
         (Inr (),
          AList.update (dir @ [''S1A_OPER_AUX_POEORB_2.EOF'']) (File [])
            (AList.update (dir @ [''S1A_OPER_AUX_POEORB_1.EOF'']) (File []) fs0))),
      proc = (\<lambda>cwd cmd k. ExitZero)\<rparr>"

text \<open>
  The project as an earlier run with this bounding box left it: the converted raster
  and its \<^verbatim>\<open>.xml\<close>, no \<^verbatim>\<open>.vrt\<close>, and no raster of the configured base name.
\<close>

definition stale_terrain_fs :: filesystem where
  "stale_terrain_fs =
     example_fs @
     [([''proj'', ''data'', ''dem'', ''demLat_N31_S30_W100_E101.wgs84''], File []),
      ([''proj'', ''data'', ''dem'', ''demLat_N31_S30_W100_E101.wgs84.xml''], File [])]"

text \<open>A run starts on a file system with nothing printed and no command run.\<close>

definition world_of :: "filesystem \<Rightarrow> world" where
  "world_of fs0 = \<lparr>fs = fs0, out = [], cmds = []\<rparr>"

text \<open>
  What the examples look at after a run: its result, which of some messages it printed,
  and the entries at some paths.
\<close>

definition observe ::
  "msg list \<Rightarrow> path list \<Rightarrow> 'r \<times> world \<Rightarrow> 'r \<times> bool list \<times> node option list" where
  "observe ms ps r =
     (fst r, map (\<lambda>m. m \<in> set (out (snd r))) ms, map (lookup (fs (snd r))) ps)"

text \<open>The same configuration when the environment has no \<^verbatim>\<open>ROI\<close>: lines 159 to 172 bind nothing.\<close>

definition no_roi_config :: "int config" where
  "no_roi_config = example_config\<lparr>ROI := fst (parse_roi (\<lambda>s. None) None)\<rparr>"

definition example_run_dir :: path where
  "example_run_dir = [''proj'', ''data'', ''runs'', ''run_20230203_20230215'']"

section \<open>The step plan, stated on its own\<close>





section \<open>The pool, stated on its own\<close>





section \<open>More examples\<close>


text \<open>The project with its terrain files and with an upper-case and a lower-case orbit file.\<close>

definition two_orbits_fs :: filesystem where
  "two_orbits_fs =
     example_fs @ terrain_files @
     [([''proj'', ''data'', ''orbit_data'', ''S1A_OPER_AUX_POEORB_1.EOF''], File []),
      ([''proj'', ''data'', ''orbit_data'', ''S1A_OPER_AUX_POEORB_2.eof''], File [])]"

definition example_dem :: path where
  "example_dem = [''proj'', ''data'', ''dem'', ''dem_standard.wgs84'']"

section \<open>Retry\<close>

lemma invocations_append: "invocations (xs @ ys) = invocations xs + invocations ys"
  by (simp add: invocations_def)

lemma invocations_failed_rounds: "invocations (failed_rounds cmd r d a k) = k"
  by (induction k arbitrary: a) (simp_all add: invocations_def)

lemma slept_failed_rounds:
  "filter (\<lambda>e. case e of Slept _ \<Rightarrow> True | _ \<Rightarrow> False) (failed_rounds cmd r d a k) = replicate k (Slept d)"
  by (induction k arbitrary: a) simp_all

lemma retry_loop_failures:
  assumes "\<forall>j. a \<le> j \<and> j < a + k \<longrightarrow> run (j - 1) = ExitNonzero"
    and "1 \<le> a" and "a + k \<le> r"
  shows "retry_loop run cmd r d a evs =
         retry_loop run cmd r d (a + k) (evs @ failed_rounds cmd r d a k)"
  using assms
proof (induction k arbitrary: a evs)
  case 0
  then show ?case by simp
next
  case (Suc k)
  have ra: "run (a - 1) = ExitNonzero" using Suc.prems(1) by simp
  have step: "retry_loop run cmd r d a evs =
      retry_loop run cmd r d (Suc a) (evs @ [Invoked cmd, RetryWarning a r, Slept d])"
    using ra Suc.prems(3) by (subst retry_loop.simps) simp
  have "retry_loop run cmd r d (Suc a) (evs @ [Invoked cmd, RetryWarning a r, Slept d]) =
      retry_loop run cmd r d (Suc a + k)
        ((evs @ [Invoked cmd, RetryWarning a r, Slept d]) @ failed_rounds cmd r d (Suc a) k)"
    using Suc.prems by (intro Suc.IH) auto
  with step show ?case by simp
qed

text \<open>
  Claim C6. For every retry count \<open>n \<ge> 1\<close>: when the command fails exactly \<open>n - 1\<close> times
  and then succeeds, \<^verbatim>\<open>run_with_retry\<close> returns \<^verbatim>\<open>True\<close> after exactly \<open>n\<close> invocations;
  when it fails on all \<open>n\<close> attempts, \<^verbatim>\<open>run_with_retry\<close> raises the failure after exactly
  \<open>n\<close> invocations. In both cases the fixed delay is slept once between each two
  consecutive attempts (\<open>n - 1\<close> sleeps of \<open>delay\<close>, each after a failed invocation and
  before the next one).
\<close>

theorem run_with_retry_attempts:
  assumes "1 \<le> n"
    and "\<forall>k < n - 1. run k = ExitNonzero"
    and "run (n - 1) = ExitZero \<or> run (n - 1) = ExitNonzero"
  shows "run_with_retry run cmd n delay =
           ((if run (n - 1) = ExitZero then Inr (Some True) else Inl CalledProcessError),
            failed_rounds cmd n delay 1 (n - 1) @ [Invoked cmd])
         \<and> invocations (snd (run_with_retry run cmd n delay)) = n
         \<and> filter (\<lambda>e. case e of Slept _ \<Rightarrow> True | _ \<Rightarrow> False) (snd (run_with_retry run cmd n delay))
             = replicate (n - 1) (Slept delay)"
proof -
  have pre: "\<forall>j. 1 \<le> j \<and> j < 1 + (n - 1) \<longrightarrow> run (j - 1) = ExitNonzero"
    using assms(2) by auto
  have "retry_loop run cmd n delay 1 [] =
        retry_loop run cmd n delay (1 + (n - 1)) ([] @ failed_rounds cmd n delay 1 (n - 1))"
    using assms(1) by (intro retry_loop_failures [OF pre]) auto
  then have eq: "run_with_retry run cmd n delay =
        retry_loop run cmd n delay n (failed_rounds cmd n delay 1 (n - 1))"
    using assms(1) by (simp add: run_with_retry_def)
  have res: "run_with_retry run cmd n delay =
           ((if run (n - 1) = ExitZero then Inr (Some True) else Inl CalledProcessError),
            failed_rounds cmd n delay 1 (n - 1) @ [Invoked cmd])"
    using assms(3) by (subst eq, subst retry_loop.simps) auto
  have inv: "invocations (snd (run_with_retry run cmd n delay)) = n"
    using assms(1) by (simp add: res invocations_append invocations_failed_rounds)
       (simp add: invocations_def)
  have sl: "filter (\<lambda>e. case e of Slept _ \<Rightarrow> True | _ \<Rightarrow> False) (snd (run_with_retry run cmd n delay))
           = replicate (n - 1) (Slept delay)"
    by (simp add: res slept_failed_rounds)
  from res inv sl show ?thesis by blast
qed

theorem run_with_retry_attempts_witness:
  "run_with_retry (\<lambda>k. if k < 2 then ExitNonzero else ExitZero) ''step'' 3 3 =
     (Inr (Some True),
      [Invoked ''step'', RetryWarning 1 3, Slept 3,
       Invoked ''step'', RetryWarning 2 3, Slept 3, Invoked ''step''])
   \<and> run_with_retry (\<lambda>k. ExitNonzero) ''step'' 2 3 =
     (Inl CalledProcessError, [Invoked ''step'', RetryWarning 1 2, Slept 3, Invoked ''step''])"
proof -
  have a: "run_with_retry (\<lambda>k. if k < 2 then ExitNonzero else ExitZero) ''step'' 3 3 =
     (Inr (Some True), failed_rounds ''step'' 3 3 1 (3 - 1) @ [Invoked ''step''])"
    using run_with_retry_attempts [of 3 "\<lambda>k. if k < 2 then ExitNonzero else ExitZero" "''step''" 3]
    by simp
  have b: "run_with_retry (\<lambda>k. ExitNonzero) ''step'' 2 3 =
     (Inl CalledProcessError, failed_rounds ''step'' 2 3 1 (2 - 1) @ [Invoked ''step''])"
    using run_with_retry_attempts [of 2 "\<lambda>k. ExitNonzero" "''step''" 3]
    by simp
  show ?thesis
    unfolding a b by (simp add: numeral_2_eq_2 eval_nat_numeral)
qed

section \<open>Atomic link: properties\<close>






lemma normalised_append: "normalised (xs @ ys) = (normalised xs \<and> normalised ys)"
  by (simp add: normalised_def)




























text \<open>
  Claim C9. When the source path does not exist, \<^verbatim>\<open>atomic_link\<close> returns \<^verbatim>\<open>False\<close> without
  raising, and the file system, with whatever occupies the destination, is unchanged; only
  the message is printed.
\<close>

theorem atomic_link_missing_source:
  assumes "\<not> exists (fs w) src"
  shows "atomic_link src dst w = (Inr False, print (Link_failed_no_source src) w)
       \<and> fs (snd (atomic_link src dst w)) = fs w
       \<and> lookup (fs (snd (atomic_link src dst w))) dst = lookup (fs w) dst"
  using assms by (simp add: atomic_link_def print_def)

theorem atomic_link_missing_source_witness:
  "\<not> exists (fs example_world) [''d'', ''gone'']
   \<and> fst (atomic_link [''d'', ''gone''] [''r'', ''sub''] example_world) = Inr False
   \<and> lookup (fs (snd (atomic_link [''d'', ''gone''] [''r'', ''sub''] example_world))) [''r'', ''sub'']
       = Some Dir"
proof -
  have h: "\<not> exists (fs example_world) [''d'', ''gone'']" by code_simp
  have l: "lookup (fs example_world) [''r'', ''sub''] = Some Dir" by code_simp
  have "fst (atomic_link [''d'', ''gone''] [''r'', ''sub''] example_world) = Inr False"
    using atomic_link_missing_source [OF h, of "[''r'', ''sub'']"] by simp
  moreover have "lookup (fs (snd (atomic_link [''d'', ''gone''] [''r'', ''sub''] example_world)))
       [''r'', ''sub''] = lookup (fs example_world) [''r'', ''sub'']"
    using atomic_link_missing_source [OF h, of "[''r'', ''sub'']"] by blast
  ultimately show ?thesis using h l by simp
qed

section \<open>Date range: properties\<close>

lemma collect_dates_positional:
  "fst (collect_dates pairs dates ms) = dates @ positional_dates pairs"
proof (induction pairs arbitrary: dates ms)
  case Nil
  then show ?case by (simp add: positional_dates_def)
next
  case (Cons p ps)
  obtain ref sec where p: "p = (ref, sec)" by (cases p)
  show ?case
    using Cons.IH
    by (simp add: p positional_dates_def date_field_def Let_def)
qed

lemma hd_sorted_Min:
  fixes xs :: "'a::linorder list"
  assumes "sorted xs" and "xs \<noteq> []"
  shows "hd xs = Min (set xs)"
proof -
  obtain y ys where xs: "xs = y # ys" using assms(2) by (cases xs) auto
  have "\<forall>z \<in> set xs. y \<le> z" using assms(1) xs by auto
  then have "Min (set xs) = y" using xs by (intro Min_eqI) auto
  then show ?thesis using xs by simp
qed

lemma last_sorted_Max:
  fixes xs :: "'a::linorder list"
  assumes "sorted xs" and "xs \<noteq> []"
  shows "last xs = Max (set xs)"
proof -
  have "\<forall>z \<in> set xs. z \<le> last xs"
    using assms by (induction xs) (auto split: if_splits)
  moreover have "last xs \<in> set xs" using assms(2) by simp
  ultimately have "Max (set xs) = last xs" by (intro Max_eqI) auto
  then show ?thesis by simp
qed

text \<open>
  Claim C7, as amended. For every list of pairs, \<^verbatim>\<open>get_date_range_from_pairs\<close> returns the
  lexical minimum and maximum of the date fields read by position (the first eight
  characters of the sixth field between underscores) from both names of every pair in
  which both names have at least six such fields, and it returns \<^verbatim>\<open>(None, None)\<close> exactly
  when there is no such pair.
\<close>

theorem date_range_positional:
  "fst (get_date_range_from_pairs pairs) =
     (if positional_dates pairs = [] then (None, None)
      else (Some (Min (set (positional_dates pairs))), Some (Max (set (positional_dates pairs)))))"
proof -
  obtain ds ms where c: "collect_dates pairs [] [] = (ds, ms)" by (cases "collect_dates pairs [] []")
  have ds: "ds = positional_dates pairs"
    using collect_dates_positional [of pairs "[]" "[]"] c by simp
  show ?thesis
  proof (cases "ds = []")
    case True
    then show ?thesis using c ds by (simp add: get_date_range_from_pairs_def)
  next
    case False
    then have ne: "sort ds \<noteq> []" by (metis length_sort length_0_conv)
    have "hd (sort ds) = Min (set ds)" using hd_sorted_Min [of "sort ds"] ne by simp
    moreover have "last (sort ds) = Max (set ds)" using last_sorted_Max [of "sort ds"] ne by simp
    ultimately show ?thesis using c ds False
      by (simp add: get_date_range_from_pairs_def Let_def)
  qed
qed

theorem date_range_positional_witness:
  "fst (get_date_range_from_pairs [(scene_b, scene_a), (''broken'', scene_a)])
     = (Some ''20230203'', Some ''20230215'')"
proof -
  have p: "positional_dates [(scene_b, scene_a), (''broken'', scene_a)] = [''20230215'', ''20230203'']"
    by code_simp
  have mn: "Min (set [''20230215'', ''20230203'']) = ''20230203''" by code_simp
  have mx: "Max (set [''20230215'', ''20230203'']) = ''20230215''" by code_simp
  show ?thesis
    using date_range_positional [of "[(scene_b, scene_a), (''broken'', scene_a)]"]
    unfolding p mn mx by simp
qed

text \<open>
  Claim C7 as stated fails. The date rule of \<^verbatim>\<open>get_s1_date\<close> extracts \<^verbatim>\<open>20230203\<close> from the
  first name of the pair, yet the range of the list with this one pair is
  \<^verbatim>\<open>(None, None)\<close>, because the second name has fewer than six fields. And two names from
  which the date rule extracts nothing give a range that is no date.
\<close>

theorem date_range_counterexample:
  "search_date scene_a = Some ''20230203''
   \<and> fst (get_date_range_from_pairs [(scene_a, ''second_scene'')]) = (None, None)
   \<and> search_date ''a_b_c_d_e_first'' = None
   \<and> search_date ''a_b_c_d_e_second'' = None
   \<and> fst (get_date_range_from_pairs [(''a_b_c_d_e_first'', ''a_b_c_d_e_second'')])
       = (Some ''first'', Some ''second'')"
  by code_simp

section \<open>The unit of work: properties\<close>





































section \<open>Staging of the orbit files\<close>

lemma two_orbits_stage:
  "observe [] [example_run_dir @ [''S1A_OPER_AUX_POEORB_1.EOF''],
               example_run_dir @ [''S1A_OPER_AUX_POEORB_2.eof'']]
     (stage [''proj''] scene_a scene_b example_dem (world_of two_orbits_fs))
   = (Inr example_run_dir, [],
      [Some (Link (Relative [''..'', ''..'', ''orbit_data'', ''S1A_OPER_AUX_POEORB_1.EOF''])), None])"
  by code_simp

lemma two_orbits_counted:
  "glob_suffix two_orbits_fs (ORBIT_DIR [''proj'']) ''.EOF''
     @ glob_suffix two_orbits_fs (ORBIT_DIR [''proj'']) ''.eof''
     = [[''proj'', ''data'', ''orbit_data'', ''S1A_OPER_AUX_POEORB_1.EOF''],
        [''proj'', ''data'', ''orbit_data'', ''S1A_OPER_AUX_POEORB_2.eof'']]"
  by code_simp

text \<open>
  Claim C5, evaluated where it fails. The orbit directory holds an upper-case
  \<^verbatim>\<open>.EOF\<close> file and a lower-case \<^verbatim>\<open>.eof\<close> file. The two patterns of line 241, by which
  \<^verbatim>\<open>prepare_shared_resources\<close> counts the orbit files, find both. Staging, whose \<^verbatim>\<open>glob\<close> of
  line 315 has the upper-case pattern only, completes, links the first into the run
  directory and leaves the second out.
\<close>

theorem lower_case_orbit_not_staged:
  "glob_suffix two_orbits_fs (ORBIT_DIR [''proj'']) ''.EOF''
     @ glob_suffix two_orbits_fs (ORBIT_DIR [''proj'']) ''.eof''
     = [[''proj'', ''data'', ''orbit_data'', ''S1A_OPER_AUX_POEORB_1.EOF''],
        [''proj'', ''data'', ''orbit_data'', ''S1A_OPER_AUX_POEORB_2.eof'']]
   \<and> fst (stage [''proj''] scene_a scene_b example_dem (world_of two_orbits_fs))
       = Inr example_run_dir
   \<and> lookup (fs (snd (stage [''proj''] scene_a scene_b example_dem (world_of two_orbits_fs))))
        (example_run_dir @ [''S1A_OPER_AUX_POEORB_1.EOF''])
       = Some (Link (Relative [''..'', ''..'', ''orbit_data'', ''S1A_OPER_AUX_POEORB_1.EOF'']))
   \<and> lookup (fs (snd (stage [''proj''] scene_a scene_b example_dem (world_of two_orbits_fs))))
        (example_run_dir @ [''S1A_OPER_AUX_POEORB_2.eof''])
       = None"
  using two_orbits_stage two_orbits_counted by (simp add: observe_def)

section \<open>Shared resources: what the code does\<close>

text \<open>
  Three facts about \<^verbatim>\<open>prepare_shared_resources\<close> on every input. With the raster and its
  two metadata files in place it returns at once and only prints one line. With the
  global \<^verbatim>\<open>ROI\<close> unbound, which is what an unset or empty environment variable gives, and
  the terrain files not all in place, it raises \<^verbatim>\<open>NameError\<close>. And the \<^verbatim>\<open>try\<close> block around
  the terrain collaborator raises nothing, whatever metadata file is missing after the
  download: it ends with the downloaded path as the terrain path.
\<close>

lemma terrain_present_returns_at_once:
  assumes "exists (fs w) (join (DEM_DIR (project_root s)) (custom_name @ ''.wgs84''))"
    and "exists (fs w) (add_ext (join (DEM_DIR (project_root s)) (custom_name @ ''.wgs84'')) ''.xml'')"
    and "exists (fs w) (add_ext (join (DEM_DIR (project_root s)) (custom_name @ ''.wgs84'')) ''.vrt'')"
  shows "prepare_shared_resources s custom_name w =
           (Inr (join (DEM_DIR (project_root s)) (custom_name @ ''.wgs84'')),
            print (Existing_dem (join (DEM_DIR (project_root s)) (custom_name @ ''.wgs84''))) w)"
  using assms by (simp add: prepare_shared_resources_def Let_def)

lemma unset_roi_is_unbound:
  "fst (parse_roi float_of None) = None" and "fst (parse_roi float_of (Some [])) = None"
  by (simp_all add: parse_roi_def truthy_def)

lemma unbound_roi_raises:
  assumes "ROI s = None"
    and "\<not> (exists (fs w) (join (DEM_DIR (project_root s)) (custom_name @ ''.wgs84''))
           \<and> exists (fs w) (add_ext (join (DEM_DIR (project_root s)) (custom_name @ ''.wgs84'')) ''.xml'')
           \<and> exists (fs w) (add_ext (join (DEM_DIR (project_root s)) (custom_name @ ''.wgs84'')) ''.vrt''))"
  shows "prepare_shared_resources s custom_name w
           = (Inl NameError, print (Downloading_dem custom_name) w)"
  using assms by (auto simp add: prepare_shared_resources_def Let_def)

lemma metadata_exception_is_caught:
  assumes "download_dem s roi (DEM_DIR (project_root s)) (API_KEY s) (fs w) = (Inr downloaded, fs1)"
    and "\<not> exists fs1 (add_ext downloaded ''.xml'') \<or> \<not> exists fs1 (add_ext downloaded ''.vrt'')"
  shows "fst (try_download_dem s roi target_dem w) = downloaded"
    and "fs (snd (try_download_dem s roi target_dem w)) = fs1"
  using assms by (auto simp add: try_download_dem_def Let_def print_def)

text \<open>The runs of the examples, each evaluated once.\<close>

lemma stale_terrain_main:
  "observe [Dem_download_failed MetadataMissing, Called_download_orbit ''20230203'' ''20230215'']
           [DEM_DIR [''proj''] @ [''demLat_N31_S30_W100_E101.wgs84.vrt'']]
     (main example_config (world_of stale_terrain_fs))
   = (Completed [Success ''run_20230203_20230215''], [True, True], [None])"
  by code_simp

lemma stale_terrain_prepare:
  "fst (prepare_shared_resources example_config ''dem_standard'' (world_of stale_terrain_fs))
   = Inr (DEM_DIR [''proj''] @ [''demLat_N31_S30_W100_E101.wgs84''])"
  by code_simp

text \<open>
  Claim C1, evaluated where it fails. The terrain raster of the configured name is
  absent, bounding box and credential are set, and the terrain collaborator returns the
  path of a raster that has no \<^verbatim>\<open>.vrt\<close>. The exception of line 212 is caught by line 213
  and printed; provisioning goes on to the orbit files and returns the path, the pool
  runs, and the unit reports success: \<^verbatim>\<open>main\<close> does not exit with status 1.
\<close>

theorem missing_metadata_not_fatal:
  "fst (main example_config (world_of stale_terrain_fs))
     = Completed [Success ''run_20230203_20230215'']
   \<and> fst (prepare_shared_resources example_config ''dem_standard'' (world_of stale_terrain_fs))
       = Inr (DEM_DIR [''proj''] @ [''demLat_N31_S30_W100_E101.wgs84''])
   \<and> Dem_download_failed MetadataMissing
       \<in> set (out (snd (main example_config (world_of stale_terrain_fs))))
   \<and> lookup (fs (snd (main example_config (world_of stale_terrain_fs))))
        (DEM_DIR [''proj''] @ [''demLat_N31_S30_W100_E101.wgs84.vrt'']) = None"
  using stale_terrain_main stale_terrain_prepare by (simp add: observe_def)

lemma no_roi_main:
  "observe [Resource_preparation_failed NameError, No_roi] []
     (main no_roi_config (world_of example_fs))
   = (SysExit 1, [True, False], [])"
  by code_simp

lemma no_roi_prepare:
  "ROI no_roi_config = None
   \<and> fst (prepare_shared_resources no_roi_config ''dem_standard'' (world_of example_fs))
       = Inl NameError"
  by code_simp

text \<open>
  Claim C2, evaluated where it fails. The terrain raster is absent and the environment has
  no \<^verbatim>\<open>ROI\<close>, so the global name is never bound. Line 198 raises \<^verbatim>\<open>NameError\<close> before the
  warning of line 217 can be printed; \<^verbatim>\<open>main\<close> catches it at line 412 and exits with
  status 1, and no unit runs.
\<close>

theorem unset_roi_aborts:
  "ROI no_roi_config = None
   \<and> fst (prepare_shared_resources no_roi_config ''dem_standard'' (world_of example_fs))
       = Inl NameError
   \<and> fst (main no_roi_config (world_of example_fs)) = SysExit 1
   \<and> Resource_preparation_failed NameError
       \<in> set (out (snd (main no_roi_config (world_of example_fs))))
   \<and> No_roi \<notin> set (out (snd (main no_roi_config (world_of example_fs))))"
  using no_roi_main no_roi_prepare by (simp add: observe_def)

lemma existing_terrain_main:
  "observe [Called_download_orbit ''20230203'' ''20230215'', Few_orbit_files 0] []
     (main example_config (world_of (example_fs @ terrain_files)))
   = (Completed [Success ''run_20230203_20230215''], [False, False], [])"
  by code_simp

lemma existing_terrain_prepare:
  "prepare_shared_resources example_config ''dem_standard'' (world_of (example_fs @ terrain_files))
     = (Inr example_dem,
        \<lparr>fs = example_fs @ terrain_files, out = [Existing_dem example_dem], cmds = []\<rparr>)
   \<and> fst (get_date_range_from_pairs [(scene_a, scene_b)]) = (Some ''20230203'', Some ''20230215'')
   \<and> glob_suffix (example_fs @ terrain_files) (ORBIT_DIR [''proj'']) ''.EOF''
        @ glob_suffix (example_fs @ terrain_files) (ORBIT_DIR [''proj'']) ''.eof'' = []"
  by code_simp

text \<open>
  Claim C3, evaluated where it fails. The terrain raster and its two metadata files exist,
  the pair list carries dates, and the orbit directory is empty. Line 193 returns at
  once, leaving the file system as it is: the orbit collaborator is not called, no orbit
  file is counted and no warning about their number is printed; the pool runs all the
  same. On the project without these terrain files the same configuration does call
  the orbit collaborator.
\<close>

theorem existing_terrain_skips_orbits:
  "prepare_shared_resources example_config ''dem_standard'' (world_of (example_fs @ terrain_files))
     = (Inr example_dem,
        \<lparr>fs = example_fs @ terrain_files, out = [Existing_dem example_dem], cmds = []\<rparr>)
   \<and> fst (get_date_range_from_pairs [(scene_a, scene_b)]) = (Some ''20230203'', Some ''20230215'')
   \<and> glob_suffix (example_fs @ terrain_files) (ORBIT_DIR [''proj'']) ''.EOF''
        @ glob_suffix (example_fs @ terrain_files) (ORBIT_DIR [''proj'']) ''.eof'' = []
   \<and> fst (main example_config (world_of (example_fs @ terrain_files)))
       = Completed [Success ''run_20230203_20230215'']
   \<and> Called_download_orbit ''20230203'' ''20230215''
       \<notin> set (out (snd (main example_config (world_of (example_fs @ terrain_files)))))
   \<and> Few_orbit_files 0
       \<notin> set (out (snd (main example_config (world_of (example_fs @ terrain_files)))))
   \<and> Called_download_orbit ''20230203'' ''20230215''
       \<in> set (out (snd (main example_config (world_of stale_terrain_fs))))"
  using existing_terrain_main existing_terrain_prepare stale_terrain_main
  by (simp add: observe_def)

section \<open>A missing pair list\<close>

lemma pool_map_no_units: "1 \<le> WORKERS s \<Longrightarrow> pool_map s [] w = (Inr [], w)"
  by (simp add: pool_map_def chunks_of.simps)

text \<open>
  Claim C10. When the pair list does not exist at the given path,
  \<^verbatim>\<open>load_pairs_from_file\<close> returns the empty list without raising and changes nothing.
  When that path is the pair list of the run, the credential is set, the pool has a
  process and provisioning returns, \<^verbatim>\<open>main\<close> runs the pool on no unit and ends with the
  empty list of results.
\<close>

theorem missing_pair_list_no_units:
  assumes "\<not> exists (fs w) file_path"
  shows "load_pairs_from_file file_path w = (Inr [], w)
       \<and> (file_path = DEFAULT_PAIRS_FILE (project_root s) \<and> truthy (API_KEY s) \<and> 1 \<le> WORKERS s
            \<and> prepare_shared_resources s (DEM_BASE_NAME s) w = (Inr dem_path, w')
          \<longrightarrow> main s w = (Completed [], w'))"
proof -
  have l: "load_pairs_from_file file_path w = (Inr [], w)"
    using assms by (simp add: load_pairs_from_file_def)
  have "main s w = (Completed [], w')"
    if "file_path = DEFAULT_PAIRS_FILE (project_root s)" and "truthy (API_KEY s)"
      and "1 \<le> WORKERS s" and "prepare_shared_resources s (DEM_BASE_NAME s) w = (Inr dem_path, w')"
  proof -
    have "w\<lparr>out := out w @ task_lines 0 []\<rparr> = w" by simp
    then show ?thesis
      using l that by (simp add: main_def pool_map_no_units)
  qed
  with l show ?thesis by blast
qed

lemma no_pair_list_facts:
  "\<not> exists (fs (world_of (AList.delete (DEFAULT_PAIRS_FILE [''proj'']) (example_fs @ terrain_files))))
       (DEFAULT_PAIRS_FILE [''proj''])
   \<and> DEFAULT_PAIRS_FILE [''proj''] = DEFAULT_PAIRS_FILE (project_root example_config)
   \<and> truthy (API_KEY example_config)
   \<and> 1 \<le> WORKERS example_config
   \<and> prepare_shared_resources example_config (DEM_BASE_NAME example_config)
        (world_of (AList.delete (DEFAULT_PAIRS_FILE [''proj'']) (example_fs @ terrain_files)))
       = (Inr example_dem,
          print (Existing_dem example_dem)
            (world_of (AList.delete (DEFAULT_PAIRS_FILE [''proj'']) (example_fs @ terrain_files))))"
  by code_simp

theorem missing_pair_list_no_units_witness:
  "\<not> exists (fs (world_of (AList.delete (DEFAULT_PAIRS_FILE [''proj'']) (example_fs @ terrain_files))))
       (DEFAULT_PAIRS_FILE [''proj''])
   \<and> fst (load_pairs_from_file (DEFAULT_PAIRS_FILE [''proj''])
            (world_of (AList.delete (DEFAULT_PAIRS_FILE [''proj'']) (example_fs @ terrain_files))))
       = Inr []
   \<and> fst (main example_config
            (world_of (AList.delete (DEFAULT_PAIRS_FILE [''proj'']) (example_fs @ terrain_files))))
       = Completed []"
proof -
  let ?w = "world_of (AList.delete (DEFAULT_PAIRS_FILE [''proj'']) (example_fs @ terrain_files))"
  have h: "\<not> exists (fs ?w) (DEFAULT_PAIRS_FILE [''proj''])"
    using no_pair_list_facts by blast
  have "load_pairs_from_file (DEFAULT_PAIRS_FILE [''proj'']) ?w = (Inr [], ?w)"
    using missing_pair_list_no_units [OF h] by blast
  moreover have "main example_config ?w = (Completed [], print (Existing_dem example_dem) ?w)"
    using missing_pair_list_no_units [OF h, of example_config example_dem
        "print (Existing_dem example_dem) ?w"] no_pair_list_facts by blast
  ultimately show ?thesis using h by simp
qed

end
